theory Spec2Isabelle
  imports Main
begin

section \<open>Python values and exceptions\<close>

text \<open>
  The serialized form of an object is a plain Python value. Only the constructors that the
  persisted attribute tuple is built from are needed: \<open>None\<close>, booleans, integers,
  strings, tuples and lists.
\<close>

datatype pyval =
    PNone
  | PBool bool
  | PInt int
  | PStr string
  | PTuple "pyval list"
  | PList "pyval list"

text \<open>
  Exceptions are values. \<open>ValueError\<close> and \<open>TypeError\<close> are raised by the interpreter
  (sequence unpacking) and by the citation tab itself, \<open>WindowActiveError\<close> by an editor
  that is asked to open a second window on a record, and \<open>CollaboratorError\<close> stands for
  any other exception raised by a collaborator that is not part of the files at hand
  (a base component's decoder, the database, an editor).
\<close>

datatype error =
    ValueError string
  | TypeError string
  | WindowActiveError
  | CollaboratorError string

section \<open>The Attribute class (attribute.py)\<close>

subsection \<open>Base components\<close>

text \<open>
  \<open>Attribute\<close> inherits from \<open>PrivacyBase\<close>, \<open>SourceBase\<close> and \<open>NoteBase\<close> and
  holds an \<open>AttributeType\<close> object. None of these four classes is part of the files at
  hand, so their routines are parameters of the model. Each base routine works on the state
  of its own component only: \<open>'p\<close> is the state kept by \<open>PrivacyBase\<close>, \<open>'s\<close> the one
  kept by \<open>SourceBase\<close>, \<open>'n\<close> the one kept by \<open>NoteBase\<close>, and \<open>'t\<close> the state of
  an \<open>AttributeType\<close> object.

  An initialiser receives the corresponding state of \<open>source\<close> when a source is given.
  A serializer returns a Python value. An unserializer receives the present state of the
  component and the data, and either raises or returns the new state.
\<close>

record ('p, 's, 'n, 't) base_components =
  PrivacyBase_init :: "'p option \<Rightarrow> 'p"
  PrivacyBase_serialize :: "'p \<Rightarrow> pyval"
  PrivacyBase_unserialize :: "'p \<Rightarrow> pyval \<Rightarrow> error + 'p"
  SourceBase_init :: "'s option \<Rightarrow> 's"
  SourceBase_serialize :: "'s \<Rightarrow> pyval"
  SourceBase_unserialize :: "'s \<Rightarrow> pyval \<Rightarrow> error + 's"
  NoteBase_init :: "'n option \<Rightarrow> 'n"
  NoteBase_serialize :: "'n \<Rightarrow> pyval"
  NoteBase_unserialize :: "'n \<Rightarrow> pyval \<Rightarrow> error + 'n"
  AttributeType_new :: "'t"
  AttributeType_serialize :: "'t \<Rightarrow> pyval"
  AttributeType_unserialize :: "'t \<Rightarrow> pyval \<Rightarrow> error + 't"

subsection \<open>Objects and the store of type objects\<close>

text \<open>
  The \<open>type\<close> field of an attribute is a reference to an \<open>AttributeType\<close> object:
  copy-construction binds the new attribute to the \<^emph>\<open>same\<close> object
  (\<open>self.type = source.type\<close>), and \<open>unserialize\<close> updates that object in place
  (\<open>self.type.unserialize(the_type)\<close>). The model therefore keeps the type objects in a
  store, addressed by natural numbers; \<open>next_free\<close> is the address the next
  \<open>AttributeType()\<close> call allocates.
\<close>

record 't store =
  cells :: "nat \<Rightarrow> 't"
  next_free :: nat

record ('p, 's, 'n) Attribute =
  privacy :: 'p
  source_list :: 's
  note_list :: 'n
  type :: nat
  "value" :: pyval

definition alloc :: "'t store \<Rightarrow> 't \<Rightarrow> nat \<times> 't store" where
  "alloc h t = (next_free h, h\<lparr>cells := (cells h)(next_free h := t), next_free := Suc (next_free h)\<rparr>)"

subsection \<open>Construction\<close>

text \<open>
  \<open>__init__(self, source=None)\<close>: the three base initialisers run first, each with the
  source; then \<open>type\<close> and \<open>value\<close> are taken from the source when there is one, and
  otherwise set to a new \<open>AttributeType()\<close> and to the empty string. An attribute
  instance is always true in a condition, so \<open>if source\<close> tests for \<open>None\<close>.
\<close>

definition Attribute_init ::
  "('p, 's, 'n, 't) base_components \<Rightarrow> ('p, 's, 'n) Attribute option \<Rightarrow> 't store
     \<Rightarrow> ('p, 's, 'n) Attribute \<times> 't store" where
  "Attribute_init B source h =
     (let p = PrivacyBase_init B (map_option privacy source);
          s = SourceBase_init B (map_option source_list source);
          n = NoteBase_init B (map_option note_list source)
      in case source of
           Some src \<Rightarrow>
             (\<lparr>privacy = p, source_list = s, note_list = n,
               type = type src, value = value src\<rparr>, h)
         | None \<Rightarrow>
             (let (r, h') = alloc h (AttributeType_new B)
              in (\<lparr>privacy = p, source_list = s, note_list = n,
                   type = r, value = PStr []\<rparr>, h')))"

subsection \<open>Accessors\<close>

definition set_value :: "('p, 's, 'n) Attribute \<Rightarrow> pyval \<Rightarrow> ('p, 's, 'n) Attribute" where
  "set_value self val = self\<lparr>value := val\<rparr>"

definition get_value :: "('p, 's, 'n) Attribute \<Rightarrow> pyval" where
  "get_value self = value self"

definition get_type :: "'t store \<Rightarrow> ('p, 's, 'n) Attribute \<Rightarrow> 't" where
  "get_type h self = cells h (type self)"

subsection \<open>Serialization\<close>

definition serialize ::
  "('p, 's, 'n, 't) base_components \<Rightarrow> 't store \<Rightarrow> ('p, 's, 'n) Attribute \<Rightarrow> pyval" where
  "serialize B h self =
     PTuple [PrivacyBase_serialize B (privacy self),
             SourceBase_serialize B (source_list self),
             NoteBase_serialize B (note_list self),
             AttributeType_serialize B (cells h (type self)),
             value self]"

text \<open>
  Iterating a Python value, as sequence unpacking does: tuples and lists yield their
  items, a string yields its characters as one-character strings, and the other values are
  not iterable.
\<close>

fun iterate :: "pyval \<Rightarrow> error + pyval list" where
  "iterate (PTuple xs) = Inr xs"
| "iterate (PList xs) = Inr xs"
| "iterate (PStr s) = Inr (map (\<lambda>c. PStr [c]) s)"
| "iterate _ = Inl (TypeError ''object is not iterable'')"

text \<open>
  The assignment \<open>(a, b, c, d, e) = data\<close>: it raises \<open>ValueError\<close> unless \<open>data\<close>
  yields exactly five items, and binds nothing in that case.
\<close>

definition unpack5 :: "pyval list \<Rightarrow> error + (pyval \<times> pyval \<times> pyval \<times> pyval \<times> pyval)" where
  "unpack5 xs =
     (if length xs = 5 then Inr (xs ! 0, xs ! 1, xs ! 2, xs ! 3, xs ! 4)
      else if length xs < 5 then Inl (ValueError ''not enough values to unpack'')
      else Inl (ValueError ''too many values to unpack''))"

text \<open>
  \<open>unserialize(self, data)\<close>. The unpacking assigns \<open>self.value\<close>; then the three base
  unserializers run in the order privacy, source list, note list, then the type object is
  updated in place, and \<open>self\<close> is returned. An exception of any step ends the call: there
  is no handler. The result of a call that raises is the exception alone.
\<close>

definition unserialize ::
  "('p, 's, 'n, 't) base_components \<Rightarrow> 't store \<Rightarrow> ('p, 's, 'n) Attribute \<Rightarrow> pyval
     \<Rightarrow> error + (('p, 's, 'n) Attribute \<times> 't store)" where
  "unserialize B h self data =
     (case iterate data of
        Inl e \<Rightarrow> Inl e
      | Inr items \<Rightarrow>
     (case unpack5 items of
        Inl e \<Rightarrow> Inl e
      | Inr (privacy_data, source_list_data, note_list_data, the_type, val) \<Rightarrow>
     (case PrivacyBase_unserialize B (privacy self) privacy_data of
        Inl e \<Rightarrow> Inl e
      | Inr p \<Rightarrow>
     (case SourceBase_unserialize B (source_list self) source_list_data of
        Inl e \<Rightarrow> Inl e
      | Inr s \<Rightarrow>
     (case NoteBase_unserialize B (note_list self) note_list_data of
        Inl e \<Rightarrow> Inl e
      | Inr n \<Rightarrow>
     (case AttributeType_unserialize B (cells h (type self)) the_type of
        Inl e \<Rightarrow> Inl e
      | Inr t \<Rightarrow>
          Inr (self\<lparr>value := val, privacy := p, source_list := s, note_list := n\<rparr>,
               h\<lparr>cells := (cells h)(type self := t)\<rparr>)))))))"

text \<open>
  The shape of the data that the contract of \<open>unserialize\<close> describes: the data yields
  exactly five items, and each of the first four is accepted by the unserializer of its
  component, applied to the present state of the receiver. There is no condition on the
  fifth item, the value, which is assigned as it is.
\<close>

definition well_formed_data ::
  "('p, 's, 'n, 't) base_components \<Rightarrow> 't store \<Rightarrow> ('p, 's, 'n) Attribute \<Rightarrow> pyval \<Rightarrow> bool" where
  "well_formed_data B h self data =
     (case iterate data of
        Inl e \<Rightarrow> False
      | Inr items \<Rightarrow>
          length items = 5
        \<and> \<not> isl (PrivacyBase_unserialize B (privacy self) (items ! 0))
        \<and> \<not> isl (SourceBase_unserialize B (source_list self) (items ! 1))
        \<and> \<not> isl (NoteBase_unserialize B (note_list self) (items ! 2))
        \<and> \<not> isl (AttributeType_unserialize B (cells h (type self)) (items ! 3)))"

subsection \<open>An instance of the base components\<close>

text \<open>
  Modelled from the spec: the four base classes are not part of the files at hand. This
  instance follows the data model of the specification: the privacy component is a flag,
  the source list is a sequence of citation references and the note list a sequence of
  note references (handles, which are strings), and a type is a classified key: a number
  of the controlled vocabulary together with a free text for custom values. A flag is
  serialized as a boolean, a sequence of references as a list of strings, and a type as a
  pair. A decoder raises on any other shape. An initialiser copies the state of the source
  and otherwise starts with a cleared flag or an empty list.
\<close>

definition flag_unserialize :: "bool \<Rightarrow> pyval \<Rightarrow> error + bool" where
  "flag_unserialize old d =
     (case d of PBool b \<Rightarrow> Inr b | _ \<Rightarrow> Inl (CollaboratorError ''privacy flag expected''))"

fun refs_decode :: "pyval list \<Rightarrow> error + string list" where
  "refs_decode [] = Inr []"
| "refs_decode (PStr r # xs) =
     (case refs_decode xs of Inl e \<Rightarrow> Inl e | Inr rs \<Rightarrow> Inr (r # rs))"
| "refs_decode (_ # xs) = Inl (CollaboratorError ''reference expected'')"

definition refs_unserialize :: "string list \<Rightarrow> pyval \<Rightarrow> error + string list" where
  "refs_unserialize old d =
     (case d of PList xs \<Rightarrow> refs_decode xs
      | _ \<Rightarrow> Inl (CollaboratorError ''list of references expected''))"

definition key_unserialize :: "int \<times> string \<Rightarrow> pyval \<Rightarrow> error + (int \<times> string)" where
  "key_unserialize old d =
     (case d of
        PTuple [PInt k, PStr s] \<Rightarrow> Inr (k, s)
      | _ \<Rightarrow> Inl (CollaboratorError ''classified key expected''))"

definition plain_components :: "(bool, string list, string list, int \<times> string) base_components" where
  "plain_components =
     \<lparr>PrivacyBase_init = (\<lambda>src. case src of Some b \<Rightarrow> b | None \<Rightarrow> False),
      PrivacyBase_serialize = PBool,
      PrivacyBase_unserialize = flag_unserialize,
      SourceBase_init = (\<lambda>src. case src of Some rs \<Rightarrow> rs | None \<Rightarrow> []),
      SourceBase_serialize = (\<lambda>rs. PList (map PStr rs)),
      SourceBase_unserialize = refs_unserialize,
      NoteBase_init = (\<lambda>src. case src of Some rs \<Rightarrow> rs | None \<Rightarrow> []),
      NoteBase_serialize = (\<lambda>rs. PList (map PStr rs)),
      NoteBase_unserialize = refs_unserialize,
      AttributeType_new = (0, []),
      AttributeType_serialize = (\<lambda>(k, s). PTuple [PInt k, PStr s]),
      AttributeType_unserialize = key_unserialize\<rparr>"

text \<open>A store and two attributes over this instance, used as concrete inputs.\<close>

definition store0 :: "(int \<times> string) store" where
  "store0 = \<lparr>cells = (\<lambda>r. if r = 0 then (3, []) else (0, ''Nickname'')), next_free = 2\<rparr>"

definition attr0 :: "(bool, string list, string list) Attribute" where
  "attr0 = \<lparr>privacy = True, source_list = [''c1'', ''c2''], note_list = [''n1''],
            type = 1, value = PStr ''Bob''\<rparr>"

definition attr1 :: "(bool, string list, string list) Attribute" where
  "attr1 = \<lparr>privacy = False, source_list = [], note_list = [],
            type = 0, value = PStr []\<rparr>"

section \<open>The citation tab (citationembedlist.py)\<close>

subsection \<open>Collaborators\<close>

text \<open>
  A handle is a string. The objects that a selector or the database hands to the tab are
  observed by the tab in four ways only: whether they are true in a condition, whether
  they are a \<open>Source\<close>, whether they are a \<open>Citation\<close>, and how they are formatted
  into a line of the debug log. Instances of \<open>Source\<close> and \<open>Citation\<close> are true;
  \<open>Citation()\<close> and \<open>Source()\<close> are new, empty records. \<open>PyTuple n\<close> is a tuple
  of \<open>n\<close> items, true when it is not empty. \<open>Other b\<close> is an object of any other
  class, with its truth value.
\<close>

type_synonym handle = string

datatype obj =
    PyNone
  | Source handle
  | Citation handle
  | PyTuple nat
  | Other bool

fun truthy :: "obj \<Rightarrow> bool" where
  "truthy PyNone = False"
| "truthy (Source _) = True"
| "truthy (Citation _) = True"
| "truthy (PyTuple n) = (n \<noteq> 0)"
| "truthy (Other b) = b"

text \<open>
  The argument of the debug line, \<open>"selected object: %s" % objct\<close>, is evaluated before
  the logger is called. A tuple on the right of \<open>%\<close> is the tuple of the arguments of the
  format, which has one place: the formatting raises \<open>TypeError\<close> for a tuple of no or of
  several items. Any other object is formatted as one argument.
\<close>

fun debug_selected :: "obj \<Rightarrow> error option" where
  "debug_selected (PyTuple n) =
     (if n = 0 then Some (TypeError ''not enough arguments for format string'')
      else if n = 1 then None
      else Some (TypeError ''not all arguments converted during string formatting''))"
| "debug_selected _ = None"

fun is_Source :: "obj \<Rightarrow> bool" where
  "is_Source (Source _) = True"
| "is_Source _ = False"

fun is_Citation :: "obj \<Rightarrow> bool" where
  "is_Citation (Citation _) = True"
| "is_Citation _ = False"

text \<open>
  A handle argument is \<open>None\<close> or a string; it is true in a condition when it is a
  non-empty string.
\<close>

fun handle_true :: "handle option \<Rightarrow> bool" where
  "handle_true None = False"
| "handle_true (Some h) = (h \<noteq> [])"

text \<open>
  A call \<open>EditCitation(dbstate, uistate, track, citation, source, callback, callertitle)\<close>
  is recorded by the citation, the source when one is passed, and whether
  \<open>object_added\<close> is passed as the callback. The editor is not part of the files at
  hand: what a call does is a parameter, with three outcomes.
\<close>

record editor_call =
  call_citation :: obj
  call_source :: "obj option"
  call_callback :: bool

datatype editor_outcome =
    Opened
  | WindowActive
  | EditorFails string

text \<open>
  A database lookup (\<open>get_citation_from_handle\<close>, \<open>get_source_from_handle\<close>) returns
  an object or raises.
\<close>

datatype lookup =
    Returns obj
  | Raises string

record db =
  get_citation_from_handle :: "handle \<Rightarrow> lookup"
  get_source_from_handle :: "handle \<Rightarrow> lookup"

subsection \<open>The state of the tab\<close>

text \<open>
  \<open>data\<close> is the list of citation handles shown by the tab, \<open>changed\<close> its
  modification flag. The effects on the collaborators are logged: \<open>registered\<close> holds
  the handles passed to \<open>callman.register_handles\<close>, \<open>rebuilds\<close> counts the calls of
  \<open>self.rebuild()\<close>, \<open>idle\<close> holds the rows of the \<open>scroll_to_cell\<close> requests given
  to \<open>GLib.idle_add\<close>, \<open>warnings\<close> the title and text of every \<open>WarningDialog\<close>,
  and \<open>editors\<close> the editor calls that opened a window.
\<close>

record tab =
  data :: "handle list"
  changed :: bool
  registered :: "handle list"
  rebuilds :: nat
  idle :: "int list"
  warnings :: "(string \<times> string) list"
  editors :: "editor_call list"

definition blocked_text :: string where
  "blocked_text =
     ''This citation cannot be created at this time. '' @
     ''Either the associated Source object is already being '' @
     ''edited, or another citation associated with the same '' @
     ''source is being edited.'' @ [CHR 0x0A, CHR 0x0A] @ ''To edit this '' @
     ''citation, you need to close the object.''"

definition WarningDialog :: "string \<Rightarrow> string \<Rightarrow> tab \<Rightarrow> tab" where
  "WarningDialog title text s = s\<lparr>warnings := warnings s @ [(title, text)]\<rparr>"

definition selection_error :: error where
  "selection_error = ValueError ''selection must be either source or citation''"

text \<open>
  \<open>try: EditCitation(...) except WindowActiveError: pass\<close>, as in the add and edit
  flows: the window-active condition is swallowed, any other exception goes on.
\<close>

definition open_or_ignore :: "(editor_call \<Rightarrow> editor_outcome) \<Rightarrow> editor_call \<Rightarrow> tab \<Rightarrow> error + tab" where
  "open_or_ignore EditCitation c s =
     (case EditCitation c of
        Opened \<Rightarrow> Inr (s\<lparr>editors := editors s @ [c]\<rparr>)
      | WindowActive \<Rightarrow> Inr s
      | EditorFails m \<Rightarrow> Inl (CollaboratorError m))"

text \<open>
  \<open>try: EditCitation(...) except WindowActiveError: WarningDialog(...)\<close>, as in the
  share and drag flows.
\<close>

definition open_or_warn :: "(editor_call \<Rightarrow> editor_outcome) \<Rightarrow> editor_call \<Rightarrow> tab \<Rightarrow> error + tab" where
  "open_or_warn EditCitation c s =
     (case EditCitation c of
        Opened \<Rightarrow> Inr (s\<lparr>editors := editors s @ [c]\<rparr>)
      | WindowActive \<Rightarrow> Inr (WarningDialog ''Cannot share this reference'' blocked_text s)
      | EditorFails m \<Rightarrow> Inl (CollaboratorError m))"

subsection \<open>Button and drag handlers\<close>

text \<open>
  \<open>add_button_clicked\<close>: the editor is called with a new citation, a new source and
  \<open>object_added\<close> as the callback.
\<close>

definition add_button_clicked :: "(editor_call \<Rightarrow> editor_outcome) \<Rightarrow> tab \<Rightarrow> error + tab" where
  "add_button_clicked EditCitation s =
     open_or_ignore EditCitation
       \<lparr>call_citation = Citation [], call_source = Some (Source []), call_callback = True\<rparr> s"

text \<open>
  \<open>object_added(value)\<close>, the callback of the editors. \<open>get_data()\<close> returns the list
  \<open>self.data\<close> itself, so the \<open>append\<close> changes the list of the tab; the row scrolled
  to is \<open>len(data) - 1\<close>, taken after the append.
\<close>

definition get_data :: "tab \<Rightarrow> handle list" where
  "get_data s = data s"

definition object_added :: "tab \<Rightarrow> handle \<Rightarrow> tab" where
  "object_added s v =
     (let data' = get_data s @ [v]
      in s\<lparr>data := data',
           registered := registered s @ [v],
           changed := True,
           rebuilds := Suc (rebuilds s),
           idle := idle s @ [int (length data') - 1]\<rparr>)"

text \<open>
  \<open>share_button_clicked\<close>: \<open>objct\<close> is what the selector's \<open>run()\<close> returned.
  The debug line is formatted first, outside every \<open>try\<close> block. Then nothing is done
  for an object that is false in a condition (\<open>None\<close> when the selector is cancelled).
\<close>

definition share_button_clicked :: "(editor_call \<Rightarrow> editor_outcome) \<Rightarrow> tab \<Rightarrow> obj \<Rightarrow> error + tab" where
  "share_button_clicked EditCitation s objct =
     (case debug_selected objct of
        Some e \<Rightarrow> Inl e
      | None \<Rightarrow>
          if truthy objct then
            if is_Source objct then
              open_or_warn EditCitation
                \<lparr>call_citation = Citation [], call_source = Some objct, call_callback = True\<rparr> s
            else if is_Citation objct then
              open_or_warn EditCitation
                \<lparr>call_citation = objct, call_source = None, call_callback = True\<rparr> s
            else Inl selection_error
          else Inr s)"

text \<open>
  \<open>edit_button_clicked\<close>: \<open>selected\<close> is what \<open>get_selected()\<close> returned. The
  lookup is outside the \<open>try\<close> block; the editor is called without a callback.
\<close>

definition edit_button_clicked ::
  "db \<Rightarrow> (editor_call \<Rightarrow> editor_outcome) \<Rightarrow> tab \<Rightarrow> handle option \<Rightarrow> error + tab" where
  "edit_button_clicked d EditCitation s selected =
     (if handle_true selected then
        case get_citation_from_handle d (the selected) of
          Raises m \<Rightarrow> Inl (CollaboratorError m)
        | Returns citation \<Rightarrow>
            open_or_ignore EditCitation
              \<lparr>call_citation = citation, call_source = None, call_callback = False\<rparr> s
      else Inr s)"

text \<open>\<open>_handle_drag(row, handle)\<close>: a citation link has been dropped on the tab.\<close>

definition handle_drag ::
  "db \<Rightarrow> (editor_call \<Rightarrow> editor_outcome) \<Rightarrow> tab \<Rightarrow> handle option \<Rightarrow> error + tab" where
  "handle_drag d EditCitation s h =
     (if handle_true h then
        case get_citation_from_handle d (the h) of
          Raises m \<Rightarrow> Inl (CollaboratorError m)
        | Returns objct \<Rightarrow>
            if is_Citation objct then
              open_or_warn EditCitation
                \<lparr>call_citation = objct, call_source = None, call_callback = True\<rparr> s
            else Inl selection_error
      else Inr s)"

text \<open>\<open>handle_extra_type(objtype, handle)\<close>: a source link has been dropped on the tab.\<close>

definition handle_extra_type ::
  "db \<Rightarrow> (editor_call \<Rightarrow> editor_outcome) \<Rightarrow> tab \<Rightarrow> handle option \<Rightarrow> error + tab" where
  "handle_extra_type d EditCitation s h =
     (if handle_true h then
        case get_source_from_handle d (the h) of
          Raises m \<Rightarrow> Inl (CollaboratorError m)
        | Returns objct \<Rightarrow>
            if is_Source objct then
              open_or_warn EditCitation
                \<lparr>call_citation = Citation [], call_source = Some objct, call_callback = True\<rparr> s
            else Inl selection_error
      else Inr s)"

subsection \<open>Database notifications\<close>

text \<open>
  \<open>list.remove(x)\<close> removes the first item equal to \<open>x\<close> and raises \<open>ValueError\<close>
  when there is none.
\<close>

definition list_remove :: "'a list \<Rightarrow> 'a \<Rightarrow> error + 'a list" where
  "list_remove xs x =
     (if x \<in> set xs then Inr (remove1 x xs) else Inl (ValueError ''list.remove(x): x not in list''))"

text \<open>
  The inner loop of \<open>citation_delete\<close>:
  \<open>while self.data.count(handle) > 0: self.data.remove(handle); rebuild = True\<close>.
\<close>

function remove_while :: "handle list \<Rightarrow> handle \<Rightarrow> bool \<Rightarrow> error + (handle list \<times> bool)" where
  "remove_while xs h rebuild =
     (if count_list xs h > 0 then
        (case list_remove xs h of
           Inl e \<Rightarrow> Inl e
         | Inr xs' \<Rightarrow> remove_while xs' h True)
      else Inr (xs, rebuild))"
  by pat_completeness auto
termination
proof (relation "measure (\<lambda>(xs, h, rebuild). length xs)")
  show "wf (measure (\<lambda>(xs, h, rebuild). length xs))"
    by simp
next
  fix xs :: "handle list" and h :: handle and rebuild :: bool and xs' :: "handle list"
  assume "0 < count_list xs h" and r: "list_remove xs h = Inr xs'"
  from r have "h \<in> set xs" and "xs' = remove1 h xs"
    by (auto simp: list_remove_def split: if_splits)
  then have "length xs' < length xs"
    using length_pos_if_in_set [of h xs] by (simp add: length_remove1)
  then show "((xs', h, True), (xs, h, rebuild)) \<in> measure (\<lambda>(xs, h, rebuild). length xs)"
    by simp
qed

declare remove_while.simps [simp del]

text \<open>The outer loop: \<open>for handle in del_citation_handle_list\<close>.\<close>

fun remove_each :: "handle list \<Rightarrow> handle list \<Rightarrow> bool \<Rightarrow> error + (handle list \<times> bool)" where
  "remove_each [] xs rebuild = Inr (xs, rebuild)"
| "remove_each (h # hs) xs rebuild =
     (case remove_while xs h rebuild of
        Inl e \<Rightarrow> Inl e
      | Inr (xs', rebuild') \<Rightarrow> remove_each hs xs' rebuild')"

text \<open>
  \<open>citation_delete(del_citation_handle_list)\<close>: the list of deleted handles is the
  argument of a database signal, a list of its own and not the list of the tab.
\<close>

definition citation_delete :: "tab \<Rightarrow> handle list \<Rightarrow> error + tab" where
  "citation_delete s del_citation_handle_list =
     (case remove_each del_citation_handle_list (data s) False of
        Inl e \<Rightarrow> Inl e
      | Inr (xs, rebuild) \<Rightarrow>
          Inr (if rebuild then s\<lparr>data := xs, rebuilds := Suc (rebuilds s)\<rparr>
               else s\<lparr>data := xs\<rparr>))"

text \<open>
  A tab and collaborators used as concrete inputs: an editor that always opens, and one
  that finds its window active already.
\<close>

definition always_opens :: "editor_call \<Rightarrow> editor_outcome" where
  "always_opens c = Opened"

definition always_active :: "editor_call \<Rightarrow> editor_outcome" where
  "always_active c = WindowActive"

definition tab0 :: tab where
  "tab0 = \<lparr>data = [''c1'', ''c2'', ''c1'', ''c3''], changed = False, registered = [''c1'', ''c2'', ''c3''],
           rebuilds = 0, idle = [], warnings = [], editors = []\<rparr>"

definition db0 :: db where
  "db0 = \<lparr>get_citation_from_handle = (\<lambda>h. Returns (if h = ''c1'' then Citation h else PyNone)),
          get_source_from_handle = (\<lambda>h. Returns (if h = ''s1'' then Source h else PyNone))\<rparr>"

section \<open>Properties of the Attribute class\<close>

text \<open>
  C9: for any attribute, \<open>set_value("")\<close> followed by \<open>get_value()\<close> returns the empty
  string: the empty value is stored as it is and is not replaced by any other value.
\<close>

theorem set_value_empty_get_value:
  "get_value (set_value self (PStr [])) = PStr []"
  by (simp add: set_value_def get_value_def)

text \<open>
  C2: \<open>serialize()\<close> returns a tuple of exactly five items: the data of the privacy
  component, of the source list, of the note list and of the type, each produced by the
  serialization routine of that component, and the value, in this order.
\<close>

theorem serialize_positions:
  "\<exists>items. serialize B h self = PTuple items
      \<and> length items = 5
      \<and> items ! 0 = PrivacyBase_serialize B (privacy self)
      \<and> items ! 1 = SourceBase_serialize B (source_list self)
      \<and> items ! 2 = NoteBase_serialize B (note_list self)
      \<and> items ! 3 = AttributeType_serialize B (get_type h self)
      \<and> items ! 4 = get_value self"
  by (simp add: serialize_def get_type_def get_value_def)

theorem serialize_positions_witness:
  "\<exists>items. serialize plain_components store0 attr0 = PTuple items
      \<and> length items = 5
      \<and> items ! 0 = PBool True
      \<and> items ! 1 = PList [PStr ''c1'', PStr ''c2'']
      \<and> items ! 2 = PList [PStr ''n1'']
      \<and> items ! 3 = PTuple [PInt 0, PStr ''Nickname'']
      \<and> items ! 4 = PStr ''Bob''"
  using serialize_positions [of plain_components store0 attr0]
  by (simp add: plain_components_def store0_def attr0_def get_type_def get_value_def)

text \<open>
  C4: an attribute constructed without a source refers to a newly allocated type object
  in the state of \<open>AttributeType()\<close>, the empty classified type, and its value is the
  empty string.
\<close>

theorem default_construction:
  "(case Attribute_init B None h of
      (self, h') \<Rightarrow>
         type self = next_free h
       \<and> type self < next_free h'
       \<and> get_type h' self = AttributeType_new B
       \<and> get_value self = PStr [])"
  by (simp add: Attribute_init_def alloc_def get_type_def get_value_def)

theorem default_construction_witness:
  "get_type (snd (Attribute_init plain_components None store0))
            (fst (Attribute_init plain_components None store0)) = (0, [])
   \<and> get_value (fst (Attribute_init plain_components None store0)) = PStr []"
  using default_construction [where B = plain_components and h = store0]
  by (simp add: plain_components_def split: prod.splits)

text \<open>
  C5: constructing an attribute from an existing attribute \<open>source\<close> yields an attribute
  whose privacy, source list, note list, type and value equal those of \<open>source\<close>, and
  leaves \<open>source\<close> as it was: the store of type objects is not changed. The
  initialisers of the three base components are taken to copy their field from the source,
  as the data model of the specification says.
\<close>

theorem copy_construction:
  assumes "PrivacyBase_init B (Some (privacy source)) = privacy source"
    and "SourceBase_init B (Some (source_list source)) = source_list source"
    and "NoteBase_init B (Some (note_list source)) = note_list source"
  shows "(case Attribute_init B (Some source) h of
            (self, h') \<Rightarrow>
               privacy self = privacy source
             \<and> source_list self = source_list source
             \<and> note_list self = note_list source
             \<and> get_type h' self = get_type h source
             \<and> get_value self = get_value source
             \<and> h' = h
             \<and> get_type h' source = get_type h source)"
  using assms by (simp add: Attribute_init_def get_type_def get_value_def)

theorem copy_construction_witness:
  "(case Attribute_init plain_components (Some attr0) store0 of
      (self, h') \<Rightarrow>
         privacy self = True
       \<and> source_list self = [''c1'', ''c2'']
       \<and> note_list self = [''n1'']
       \<and> get_type h' self = (0, ''Nickname'')
       \<and> get_value self = PStr ''Bob''
       \<and> h' = store0
       \<and> get_type h' attr0 = (0, ''Nickname''))"
proof -
  have p: "PrivacyBase_init plain_components (Some (privacy attr0)) = privacy attr0"
    by (simp add: plain_components_def)
  have s: "SourceBase_init plain_components (Some (source_list attr0)) = source_list attr0"
    by (simp add: plain_components_def)
  have n: "NoteBase_init plain_components (Some (note_list attr0)) = note_list attr0"
    by (simp add: plain_components_def)
  have v: "privacy attr0 = True" "source_list attr0 = [''c1'', ''c2'']" "note_list attr0 = [''n1'']"
    "get_type store0 attr0 = (0, ''Nickname'')" "get_value attr0 = PStr ''Bob''"
    by (simp_all add: attr0_def store0_def get_type_def get_value_def)
  show ?thesis
    using copy_construction [OF p s n, of store0] by (simp add: v split: prod.splits)
qed

text \<open>
  C1: serializing an attribute \<open>x\<close> and unserializing the result into an attribute
  \<open>r\<close> succeeds and leaves \<open>r\<close> with the type, value, privacy, source list and note
  list of \<open>x\<close>, provided that the unserializer of each base component reads back what
  its serializer wrote.
\<close>

theorem unserialize_serialize:
  assumes "PrivacyBase_unserialize B (privacy r) (PrivacyBase_serialize B (privacy x))
             = Inr (privacy x)"
    and "SourceBase_unserialize B (source_list r) (SourceBase_serialize B (source_list x))
             = Inr (source_list x)"
    and "NoteBase_unserialize B (note_list r) (NoteBase_serialize B (note_list x))
             = Inr (note_list x)"
    and "AttributeType_unserialize B (get_type h r) (AttributeType_serialize B (get_type h x))
             = Inr (get_type h x)"
  shows "\<exists>y h'. unserialize B h r (serialize B h x) = Inr (y, h')
      \<and> get_type h' y = get_type h x
      \<and> get_value y = get_value x
      \<and> privacy y = privacy x
      \<and> source_list y = source_list x
      \<and> note_list y = note_list x"
  using assms
  by (simp add: unserialize_def serialize_def unpack5_def get_type_def get_value_def)

lemma refs_decode_map_PStr: "refs_decode (map PStr rs) = Inr rs"
  by (induction rs) auto

theorem unserialize_serialize_witness:
  "\<exists>y h'. unserialize plain_components store0 attr1 (serialize plain_components store0 attr0)
             = Inr (y, h')
      \<and> get_type h' y = (0, ''Nickname'')
      \<and> get_value y = PStr ''Bob''
      \<and> privacy y = True
      \<and> source_list y = [''c1'', ''c2'']
      \<and> note_list y = [''n1'']"
proof -
  have p: "PrivacyBase_unserialize plain_components (privacy attr1)
             (PrivacyBase_serialize plain_components (privacy attr0)) = Inr (privacy attr0)"
    by (simp add: plain_components_def flag_unserialize_def)
  have s: "SourceBase_unserialize plain_components (source_list attr1)
             (SourceBase_serialize plain_components (source_list attr0)) = Inr (source_list attr0)"
    by (simp add: plain_components_def refs_unserialize_def refs_decode_map_PStr)
  have n: "NoteBase_unserialize plain_components (note_list attr1)
             (NoteBase_serialize plain_components (note_list attr0)) = Inr (note_list attr0)"
    by (simp add: plain_components_def refs_unserialize_def refs_decode_map_PStr)
  have t: "AttributeType_unserialize plain_components (get_type store0 attr1)
             (AttributeType_serialize plain_components (get_type store0 attr0))
           = Inr (get_type store0 attr0)"
    by (simp add: plain_components_def key_unserialize_def get_type_def split: prod.splits)
  show ?thesis
    using unserialize_serialize [OF p s n t]
    by (simp add: attr0_def store0_def get_type_def get_value_def)
qed

text \<open>
  C3: \<open>unserialize\<close> raises on malformed data and returns no attribute. A tuple whose
  number of items is not five raises \<open>ValueError\<close> in the unpacking; and the call raises
  exactly when the data is not of the shape of the contract, where a nested item counts as
  of the wrong shape when the unserializer of its component raises on it. The exception
  is the result of the call: no step of \<open>unserialize\<close> handles it.
\<close>

theorem unserialize_malformed:
  "(length items \<noteq> 5 \<longrightarrow> (\<exists>m. unserialize B h self (PTuple items) = Inl (ValueError m)))
   \<and> ((\<exists>e. unserialize B h self payload = Inl e) \<longleftrightarrow> \<not> well_formed_data B h self payload)"
proof
  show "length items \<noteq> 5 \<longrightarrow> (\<exists>m. unserialize B h self (PTuple items) = Inl (ValueError m))"
    by (simp add: unserialize_def unpack5_def)
next
  show "(\<exists>e. unserialize B h self payload = Inl e) \<longleftrightarrow> \<not> well_formed_data B h self payload"
  proof (cases "iterate payload")
    case (Inl e)
    then show ?thesis
      by (simp add: unserialize_def well_formed_data_def)
  next
    case (Inr xs)
    show ?thesis
    proof (cases "length xs = 5")
      case False
      then show ?thesis
        using Inr by (simp add: unserialize_def well_formed_data_def unpack5_def)
    next
      case True
      then show ?thesis
        using Inr
        by (auto simp: unserialize_def well_formed_data_def unpack5_def isl_def
            split: sum.splits)
    qed
  qed
qed

theorem unserialize_malformed_witness:
  "(\<exists>m. unserialize plain_components store0 attr1 (PTuple [PBool True, PList [], PList []])
          = Inl (ValueError m))
   \<and> (\<exists>e. unserialize plain_components store0 attr1
            (PTuple [PBool True, PList [], PList [PInt 3], PTuple [PInt 3, PStr ''x''], PNone])
          = Inl e)"
proof -
  have a: "length [PBool True, PList [], PList []] \<noteq> 5"
    by simp
  have b: "\<not> well_formed_data plain_components store0 attr1
             (PTuple [PBool True, PList [], PList [PInt 3], PTuple [PInt 3, PStr ''x''], PNone])"
    by (simp add: well_formed_data_def plain_components_def refs_unserialize_def)
  show ?thesis
    using a b
      unserialize_malformed [of "[PBool True, PList [], PList []]" plain_components store0 attr1
        "PTuple [PBool True, PList [], PList [PInt 3], PTuple [PInt 3, PStr ''x''], PNone]"]
    by blast
qed

section \<open>Properties of the citation tab\<close>

text \<open>
  C8: \<open>object_added\<close> appends the new handle at the end of the list of the tab: the
  handles that were present stay as they were and in their order, the list is longer by
  one, and a rebuild of the display is requested.
\<close>

theorem object_added_appends:
  "data (object_added s v) = data s @ [v]
   \<and> length (data (object_added s v)) = Suc (length (data s))
   \<and> take (length (data s)) (data (object_added s v)) = data s
   \<and> last (data (object_added s v)) = v
   \<and> rebuilds (object_added s v) = Suc (rebuilds s)
   \<and> changed (object_added s v)"
  by (simp add: object_added_def get_data_def Let_def)

theorem object_added_appends_witness:
  "data (object_added tab0 ''c7'') = [''c1'', ''c2'', ''c1'', ''c3'', ''c7'']
   \<and> rebuilds (object_added tab0 ''c7'') = 1"
  using object_added_appends [of tab0 "''c7''"] by (simp add: tab0_def)

lemma filter_remove1_neq:
  "filter (\<lambda>x. x \<noteq> h) (remove1 h xs) = filter (\<lambda>x. x \<noteq> h) xs"
  by (induction xs) auto

lemma remove_while_eq:
  "remove_while xs h rebuild = Inr (filter (\<lambda>x. x \<noteq> h) xs, rebuild \<or> h \<in> set xs)"
proof (induction xs h rebuild rule: remove_while.induct)
  case (1 xs h rebuild)
  show ?case
  proof (cases "h \<in> set xs")
    case True
    then have c: "0 < count_list xs h"
      using count_list_0_iff [of xs h] by simp
    have r: "list_remove xs h = Inr (remove1 h xs)"
      using True by (simp add: list_remove_def)
    have "remove_while xs h rebuild = remove_while (remove1 h xs) h True"
      using c r by (subst remove_while.simps) simp
    also have "\<dots> = Inr (filter (\<lambda>x. x \<noteq> h) (remove1 h xs), True \<or> h \<in> set (remove1 h xs))"
      using "1.IH" [OF c r] .
    finally show ?thesis
      using True by (simp add: filter_remove1_neq)
  next
    case False
    then have "count_list xs h = 0"
      using count_list_0_iff [of xs h] by simp
    then have "remove_while xs h rebuild = Inr (xs, rebuild)"
      by (subst remove_while.simps) simp
    moreover have "filter (\<lambda>x. x \<noteq> h) xs = xs"
      using False by (induction xs) auto
    ultimately show ?thesis
      using False by simp
  qed
qed

lemma remove_each_eq:
  "remove_each hs xs rebuild =
     Inr (filter (\<lambda>x. x \<notin> set hs) xs, rebuild \<or> set hs \<inter> set xs \<noteq> {})"
proof (induction hs arbitrary: xs rebuild)
  case Nil
  then show ?case by simp
next
  case (Cons h hs)
  have "filter (\<lambda>x. x \<notin> set hs) (filter (\<lambda>x. x \<noteq> h) xs) = filter (\<lambda>x. x \<notin> set (h # hs)) xs"
    by (induction xs) auto
  moreover have "((rebuild \<or> h \<in> set xs) \<or> set hs \<inter> set (filter (\<lambda>x. x \<noteq> h) xs) \<noteq> {})
      = (rebuild \<or> set (h # hs) \<inter> set xs \<noteq> {})"
    by auto
  ultimately show ?case
    by (simp add: remove_while_eq Cons.IH)
qed

text \<open>
  C10: \<open>citation_delete\<close> returns without raising; afterwards the list of the tab holds
  exactly the handles that are not in the list of deleted handles, in their former order,
  so that no deleted handle occurs in it; nothing else of the tab changes, except that one
  rebuild is requested when at least one handle was removed, and none otherwise.
\<close>

theorem citation_delete_removes:
  "citation_delete s dels =
     Inr (s\<lparr>data := filter (\<lambda>h. h \<notin> set dels) (data s),
            rebuilds := (if set dels \<inter> set (data s) \<noteq> {} then Suc (rebuilds s) else rebuilds s)\<rparr>)
   \<and> set dels \<inter> set (filter (\<lambda>h. h \<notin> set dels) (data s)) = {}"
  by (auto simp: citation_delete_def remove_each_eq)

theorem citation_delete_removes_witness:
  "citation_delete tab0 [''c1'', ''c9'', ''c1''] = Inr (tab0\<lparr>data := [''c2'', ''c3''], rebuilds := 1\<rparr>)
   \<and> citation_delete tab0 [''c9''] = Inr tab0"
  using citation_delete_removes [of tab0 "[''c1'', ''c9'', ''c1'']"]
    citation_delete_removes [of tab0 "[''c9'']"]
  by (simp add: tab0_def)

lemma CollaboratorError_not_selection_error: "CollaboratorError m \<noteq> selection_error"
  by (simp add: selection_error_def)

lemma open_or_warn_not_selection_error: "open_or_warn E c s \<noteq> Inl selection_error"
  by (simp add: open_or_warn_def selection_error_def split: editor_outcome.splits)

lemma debug_selected_Source_Citation:
  "is_Source x \<or> is_Citation x \<Longrightarrow> debug_selected x = None \<and> truthy x"
  by (cases x) auto

text \<open>
  C6, as the code has it. In the share flow the error
  \<open>selection must be either source or citation\<close> is the result of the handler whenever
  the object of the selector is neither a \<open>Source\<close> nor a \<open>Citation\<close>, is true in a
  condition and has passed the formatting of the debug line; for \<open>None\<close>, the result of a
  cancelled selection, the handler returns with the tab as it was, and a tuple of no or of
  several items raises \<open>TypeError\<close> in the debug line, before the dispatch. In the drag
  flows a lookup is made for a non-empty handle only: without a handle, or with the empty
  string, the handler returns with the tab as it was; and whenever the object that the
  lookup returned is neither a \<open>Source\<close> nor a \<open>Citation\<close>, the error is the result
  of the handler. The error is not raised in the share flow whenever the object is a
  \<open>Source\<close> or a \<open>Citation\<close>, and not in a drag flow whenever the object is of the
  class that its lookup is for: a \<open>Citation\<close> for a citation link, a \<open>Source\<close> for a
  source link.
\<close>

theorem selection_error_raised:
  "(truthy objct \<and> debug_selected objct = None \<and> \<not> is_Source objct \<and> \<not> is_Citation objct
      \<longrightarrow> share_button_clicked E s objct = Inl selection_error)
   \<and> share_button_clicked E s PyNone = Inr s
   \<and> (n \<noteq> 1 \<longrightarrow> (\<exists>m. share_button_clicked E s (PyTuple n) = Inl (TypeError m)))
   \<and> (is_Source sel \<or> is_Citation sel
      \<longrightarrow> share_button_clicked E s sel \<noteq> Inl selection_error)
   \<and> (\<not> handle_true h
      \<longrightarrow> handle_drag d E s h = Inr s \<and> handle_extra_type d E s h = Inr s)
   \<and> (hc \<noteq> [] \<and> get_citation_from_handle d hc = Returns oc
        \<and> \<not> is_Source oc \<and> \<not> is_Citation oc
      \<longrightarrow> handle_drag d E s (Some hc) = Inl selection_error)
   \<and> (hc' \<noteq> [] \<and> get_citation_from_handle d hc' = Returns oc' \<and> is_Citation oc'
      \<longrightarrow> handle_drag d E s (Some hc') \<noteq> Inl selection_error)
   \<and> (hs \<noteq> [] \<and> get_source_from_handle d hs = Returns os
        \<and> \<not> is_Source os \<and> \<not> is_Citation os
      \<longrightarrow> handle_extra_type d E s (Some hs) = Inl selection_error)
   \<and> (hs' \<noteq> [] \<and> get_source_from_handle d hs' = Returns os' \<and> is_Source os'
      \<longrightarrow> handle_extra_type d E s (Some hs') \<noteq> Inl selection_error)"
proof -
  have share_raises: "truthy objct \<and> debug_selected objct = None
      \<and> \<not> is_Source objct \<and> \<not> is_Citation objct
      \<longrightarrow> share_button_clicked E s objct = Inl selection_error"
    by (simp add: share_button_clicked_def)
  have share_none: "share_button_clicked E s PyNone = Inr s"
    by (simp add: share_button_clicked_def)
  have share_tuple: "n \<noteq> 1 \<longrightarrow> (\<exists>m. share_button_clicked E s (PyTuple n) = Inl (TypeError m))"
    by (simp add: share_button_clicked_def)
  have share_ok: "is_Source sel \<or> is_Citation sel
      \<longrightarrow> share_button_clicked E s sel \<noteq> Inl selection_error"
    using debug_selected_Source_Citation [of sel]
    by (auto simp: share_button_clicked_def open_or_warn_not_selection_error)
  have no_handle: "\<not> handle_true h
      \<longrightarrow> handle_drag d E s h = Inr s \<and> handle_extra_type d E s h = Inr s"
    by (simp add: handle_drag_def handle_extra_type_def)
  have drag_raises: "hc \<noteq> [] \<and> get_citation_from_handle d hc = Returns oc
        \<and> \<not> is_Source oc \<and> \<not> is_Citation oc
      \<longrightarrow> handle_drag d E s (Some hc) = Inl selection_error"
    by (simp add: handle_drag_def)
  have drag_ok: "hc' \<noteq> [] \<and> get_citation_from_handle d hc' = Returns oc' \<and> is_Citation oc'
      \<longrightarrow> handle_drag d E s (Some hc') \<noteq> Inl selection_error"
    by (simp add: handle_drag_def open_or_warn_not_selection_error)
  have extra_raises: "hs \<noteq> [] \<and> get_source_from_handle d hs = Returns os
        \<and> \<not> is_Source os \<and> \<not> is_Citation os
      \<longrightarrow> handle_extra_type d E s (Some hs) = Inl selection_error"
    by (simp add: handle_extra_type_def)
  have extra_ok: "hs' \<noteq> [] \<and> get_source_from_handle d hs' = Returns os' \<and> is_Source os'
      \<longrightarrow> handle_extra_type d E s (Some hs') \<noteq> Inl selection_error"
    by (simp add: handle_extra_type_def open_or_warn_not_selection_error)
  show ?thesis
    using share_raises share_none share_tuple share_ok no_handle
      drag_raises drag_ok extra_raises extra_ok
    by blast
qed

theorem selection_error_raised_witness:
  "share_button_clicked always_opens tab0 (Other True) = Inl selection_error
   \<and> share_button_clicked always_opens tab0 PyNone = Inr tab0
   \<and> (\<exists>m. share_button_clicked always_opens tab0 (PyTuple 2) = Inl (TypeError m))
   \<and> share_button_clicked always_opens tab0 (Source ''s1'') \<noteq> Inl selection_error
   \<and> handle_drag db0 always_opens tab0 (Some []) = Inr tab0
   \<and> handle_extra_type db0 always_opens tab0 (Some []) = Inr tab0
   \<and> handle_drag db0 always_opens tab0 (Some ''c9'') = Inl selection_error
   \<and> handle_drag db0 always_opens tab0 (Some ''c1'') \<noteq> Inl selection_error
   \<and> handle_extra_type db0 always_opens tab0 (Some ''s9'') = Inl selection_error
   \<and> handle_extra_type db0 always_opens tab0 (Some ''s1'') \<noteq> Inl selection_error"
  using selection_error_raised [where E = always_opens and s = tab0 and d = db0
      and objct = "Other True" and n = 2 and sel = "Source ''s1''" and h = "Some []"
      and hc = "''c9''" and oc = PyNone and hc' = "''c1''" and oc' = "Citation ''c1''"
      and hs = "''s9''" and os = PyNone and hs' = "''s1''" and os' = "Source ''s1''"]
  by (simp add: db0_def)

text \<open>
  The claim C6 as it is written fails in the share flow. Where the selection is cancelled,
  the object is \<open>None\<close>, which is neither a \<open>Source\<close> nor a \<open>Citation\<close>, and the
  handler returns with the tab as it was. And a pair, which is neither of the two, ends the
  handler in the debug line with \<open>TypeError\<close>, not with the selection error.
\<close>

theorem share_none_counterexample:
  "\<not> is_Source PyNone \<and> \<not> is_Citation PyNone
   \<and> share_button_clicked always_opens tab0 PyNone = Inr tab0
   \<and> \<not> is_Source (PyTuple 2) \<and> \<not> is_Citation (PyTuple 2)
   \<and> share_button_clicked always_opens tab0 (PyTuple 2)
       = Inl (TypeError ''not all arguments converted during string formatting'')"
  by (simp add: share_button_clicked_def)

text \<open>
  C7: when the editor that a flow opens raises the window-active condition, the flow
  ends without an error. The add and edit flows leave the tab as it was, with no dialog.
  The share flow, for a \<open>Source\<close> or a \<open>Citation\<close>, and the two drag flows, for an
  object of the kind of the dropped link, leave the tab as it was but for one warning
  dialog with the title \<open>Cannot share this reference\<close> and the explanatory text.
\<close>

theorem window_active_aborts:
  "(EditCitation \<lparr>call_citation = Citation [], call_source = Some (Source []),
                  call_callback = True\<rparr> = WindowActive
      \<longrightarrow> add_button_clicked EditCitation s = Inr s)
   \<and> (get_citation_from_handle d e = Returns citation
      \<and> EditCitation \<lparr>call_citation = citation, call_source = None,
                      call_callback = False\<rparr> = WindowActive
      \<longrightarrow> edit_button_clicked d EditCitation s (Some e) = Inr s)
   \<and> (is_Source src
      \<and> EditCitation \<lparr>call_citation = Citation [], call_source = Some src,
                      call_callback = True\<rparr> = WindowActive
      \<longrightarrow> share_button_clicked EditCitation s src =
            Inr (s\<lparr>warnings := warnings s @ [(''Cannot share this reference'', blocked_text)]\<rparr>))
   \<and> (is_Citation cit
      \<and> EditCitation \<lparr>call_citation = cit, call_source = None,
                      call_callback = True\<rparr> = WindowActive
      \<longrightarrow> share_button_clicked EditCitation s cit =
            Inr (s\<lparr>warnings := warnings s @ [(''Cannot share this reference'', blocked_text)]\<rparr>))
   \<and> (hc \<noteq> [] \<and> get_citation_from_handle d hc = Returns oc \<and> is_Citation oc
      \<and> EditCitation \<lparr>call_citation = oc, call_source = None,
                      call_callback = True\<rparr> = WindowActive
      \<longrightarrow> handle_drag d EditCitation s (Some hc) =
            Inr (s\<lparr>warnings := warnings s @ [(''Cannot share this reference'', blocked_text)]\<rparr>))
   \<and> (hs \<noteq> [] \<and> get_source_from_handle d hs = Returns os \<and> is_Source os
      \<and> EditCitation \<lparr>call_citation = Citation [], call_source = Some os,
                      call_callback = True\<rparr> = WindowActive
      \<longrightarrow> handle_extra_type d EditCitation s (Some hs) =
            Inr (s\<lparr>warnings := warnings s @ [(''Cannot share this reference'', blocked_text)]\<rparr>))"
proof -
  have add: "EditCitation \<lparr>call_citation = Citation [], call_source = Some (Source []),
                  call_callback = True\<rparr> = WindowActive
      \<longrightarrow> add_button_clicked EditCitation s = Inr s"
    by (simp add: add_button_clicked_def open_or_ignore_def)
  have edit: "get_citation_from_handle d e = Returns citation
      \<and> EditCitation \<lparr>call_citation = citation, call_source = None,
                      call_callback = False\<rparr> = WindowActive
      \<longrightarrow> edit_button_clicked d EditCitation s (Some e) = Inr s"
    by (simp add: edit_button_clicked_def open_or_ignore_def)
  have share_src: "is_Source src
      \<and> EditCitation \<lparr>call_citation = Citation [], call_source = Some src,
                      call_callback = True\<rparr> = WindowActive
      \<longrightarrow> share_button_clicked EditCitation s src =
            Inr (s\<lparr>warnings := warnings s @ [(''Cannot share this reference'', blocked_text)]\<rparr>)"
    by (cases src) (simp_all add: share_button_clicked_def open_or_warn_def WarningDialog_def)
  have share_cit: "is_Citation cit
      \<and> EditCitation \<lparr>call_citation = cit, call_source = None,
                      call_callback = True\<rparr> = WindowActive
      \<longrightarrow> share_button_clicked EditCitation s cit =
            Inr (s\<lparr>warnings := warnings s @ [(''Cannot share this reference'', blocked_text)]\<rparr>)"
    by (cases cit) (simp_all add: share_button_clicked_def open_or_warn_def WarningDialog_def)
  have drag: "hc \<noteq> [] \<and> get_citation_from_handle d hc = Returns oc \<and> is_Citation oc
      \<and> EditCitation \<lparr>call_citation = oc, call_source = None,
                      call_callback = True\<rparr> = WindowActive
      \<longrightarrow> handle_drag d EditCitation s (Some hc) =
            Inr (s\<lparr>warnings := warnings s @ [(''Cannot share this reference'', blocked_text)]\<rparr>)"
    by (simp add: handle_drag_def open_or_warn_def WarningDialog_def)
  have extra: "hs \<noteq> [] \<and> get_source_from_handle d hs = Returns os \<and> is_Source os
      \<and> EditCitation \<lparr>call_citation = Citation [], call_source = Some os,
                      call_callback = True\<rparr> = WindowActive
      \<longrightarrow> handle_extra_type d EditCitation s (Some hs) =
            Inr (s\<lparr>warnings := warnings s @ [(''Cannot share this reference'', blocked_text)]\<rparr>)"
    by (simp add: handle_extra_type_def open_or_warn_def WarningDialog_def)
  show ?thesis
    using add edit share_src share_cit drag extra by blast
qed

theorem window_active_aborts_witness:
  "add_button_clicked always_active tab0 = Inr tab0
   \<and> edit_button_clicked db0 always_active tab0 (Some ''c1'') = Inr tab0
   \<and> share_button_clicked always_active tab0 (Source ''s1'') =
       Inr (tab0\<lparr>warnings := [(''Cannot share this reference'', blocked_text)]\<rparr>)
   \<and> share_button_clicked always_active tab0 (Citation ''c1'') =
       Inr (tab0\<lparr>warnings := [(''Cannot share this reference'', blocked_text)]\<rparr>)
   \<and> handle_drag db0 always_active tab0 (Some ''c1'') =
       Inr (tab0\<lparr>warnings := [(''Cannot share this reference'', blocked_text)]\<rparr>)
   \<and> handle_extra_type db0 always_active tab0 (Some ''s1'') =
       Inr (tab0\<lparr>warnings := [(''Cannot share this reference'', blocked_text)]\<rparr>)"
proof -
  have w: "warnings tab0 = []"
    by (simp add: tab0_def)
  show ?thesis
    using window_active_aborts [of always_active tab0 db0 "''c1''" "Citation ''c1''"
        "Source ''s1''" "Citation ''c1''" "''c1''" "Citation ''c1''" "''s1''" "Source ''s1''"]
    by (simp add: always_active_def db0_def w)
qed

end
